theory Spec2Isabelle
  imports Complex_Main
begin

section \<open>The payment simulator of the Cosmic Coffee demo\<close>

text \<open>
  This theory embeds \<^verbatim>\<open>src/payment/services/payment_processor.py\<close> (class
  \<^verbatim>\<open>PaymentProcessor\<close>) and the payment endpoint of \<^verbatim>\<open>src/payment/main.py\<close>.

  Conventions of the embedding:
  \<^item> Python floats (timestamps of \<^verbatim>\<open>time.time()\<close>, delays, amounts) are real numbers;
    rounding is not modelled.
  \<^item> Everything the code reads from outside is a parameter of the model: the reading of
    \<^verbatim>\<open>time.time()\<close>, the draws of \<^verbatim>\<open>random.random()\<close>, the string of
    \<^verbatim>\<open>uuid.uuid4()\<close> and the outcome of the environment test in the constructor.
  \<^item> The attributes that the methods assign are fields of a record, and a method that
    assigns them returns the updated record. The attributes that are written once in the
    constructor and hold a literal are constants.
  \<^item> Log records are not modelled: nothing in the code reads them back.
\<close>

subsection \<open>The processor and its constants\<close>

text \<open>Lines 17 and 24 to 27 of the constructor.\<close>

definition failure_rate :: real where
  "failure_rate = 5 / 100"

definition slowdown_interval :: real where
  "slowdown_interval = 900"

definition slowdown_duration :: real where
  "slowdown_duration = 300"

definition slowdown_min_delay :: real where
  "slowdown_min_delay = 2"

definition slowdown_max_delay :: real where
  "slowdown_max_delay = 5"

text \<open>
  The attributes \<^verbatim>\<open>_slowdown_enabled\<close>, \<^verbatim>\<open>_slowdown_active\<close>,
  \<^verbatim>\<open>_slowdown_start_time\<close> and \<^verbatim>\<open>_next_slowdown_time\<close>. The two
  timestamps hold a float or \<^verbatim>\<open>None\<close>.
\<close>

record processor =
  slowdown_enabled :: bool
  slowdown_active :: bool
  slowdown_start_time :: "real option"
  next_slowdown_time :: "real option"

text \<open>
  The constructor. \<open>enabled\<close> is the value of
  \<^verbatim>\<open>slowdown_env in ("true", "1", "yes")\<close> and \<open>now\<close> the reading of
  \<^verbatim>\<open>time.time()\<close> on line 32.
\<close>

definition PaymentProcessor_init :: "bool \<Rightarrow> real \<Rightarrow> processor" where
  "PaymentProcessor_init enabled now =
     \<lparr>slowdown_enabled = enabled,
      slowdown_active = False,
      slowdown_start_time = None,
      next_slowdown_time = (if enabled then Some now else None)\<rparr>"

subsection \<open>The state check\<close>

text \<open>
  Python's truth test of an optional float, as in
  \<^verbatim>\<open>self._next_slowdown_time and ...\<close>: \<^verbatim>\<open>None\<close> is false, and so is the
  float \<^verbatim>\<open>0.0\<close>.
\<close>

fun truthy_time :: "real option \<Rightarrow> bool" where
  "truthy_time None = False"
| "truthy_time (Some t) = (t \<noteq> 0)"

text \<open>
  \<^verbatim>\<open>_check_and_update_slowdown\<close>, with \<open>current_time\<close> the reading of
  \<^verbatim>\<open>time.time()\<close> on line 42. The branches are in the order of the source; the
  comparison with a timestamp is only evaluated after its truth test, as \<^verbatim>\<open>and\<close>
  does.
\<close>

definition check_and_update_slowdown :: "processor \<Rightarrow> real \<Rightarrow> processor" where
  "check_and_update_slowdown s current_time =
     (if \<not> slowdown_enabled s then s
      else if \<not> slowdown_active s \<and> truthy_time (next_slowdown_time s)
              \<and> current_time \<ge> the (next_slowdown_time s)
      then s\<lparr>slowdown_active := True, slowdown_start_time := Some current_time\<rparr>
      else if slowdown_active s \<and> truthy_time (slowdown_start_time s)
      then (let elapsed = current_time - the (slowdown_start_time s)
            in if elapsed \<ge> slowdown_duration
               then s\<lparr>slowdown_active := False,
                      slowdown_start_time := None,
                      next_slowdown_time := Some (current_time + slowdown_interval)\<rparr>
               else s)
      else s)"

text \<open>
  A run of checks, one after the other, at the clock readings \<open>nows\<close>. Both callers
  of the check, the request path (line 85) and the loop of
  \<^verbatim>\<open>monitor_slowdown_cycles\<close> in \<^verbatim>\<open>main.py\<close> (line 47), call the same
  method, so any history of the shared processor is such a run.
\<close>

definition run_checks :: "processor \<Rightarrow> real list \<Rightarrow> processor" where
  "run_checks s nows = foldl check_and_update_slowdown s nows"

subsection \<open>The delay\<close>

text \<open>
  \<^verbatim>\<open>random.uniform(a, b)\<close> of the standard library computes
  \<^verbatim>\<open>a + (b - a) * random()\<close>; \<open>u\<close> is that draw, which lies in \<open>[0, 1)\<close>.
\<close>

definition uniform :: "real \<Rightarrow> real \<Rightarrow> real \<Rightarrow> real" where
  "uniform a b u = a + (b - a) * u"

text \<open>
  \<^verbatim>\<open>_get_slowdown_delay\<close>. The method assigns no attribute, so the model returns
  the delay alone.
\<close>

definition get_slowdown_delay :: "processor \<Rightarrow> real \<Rightarrow> real" where
  "get_slowdown_delay s u =
     (if \<not> slowdown_enabled s \<or> \<not> slowdown_active s then 0
      else uniform slowdown_min_delay slowdown_max_delay u)"

subsection \<open>Processing a payment\<close>

text \<open>The values that the result dictionary and the response hold.\<close>

datatype pyval = PyNone | PyBool bool | PyStr string | PyFloat real

text \<open>A dictionary with string keys, in insertion order; \<open>map_of\<close> looks a key up.\<close>

type_synonym pydict = "(string \<times> pyval) list"

text \<open>
  What one call of \<^verbatim>\<open>process_payment\<close> reads from outside: the clock at the state
  check, the draw inside \<^verbatim>\<open>random.uniform\<close> (used only when a delay is computed),
  the draw of \<^verbatim>\<open>random.random()\<close> on line 101 and the string of
  \<^verbatim>\<open>uuid.uuid4()\<close> on line 112.
\<close>

record world =
  clock :: real
  delay_draw :: real
  failure_draw :: real
  uuid4 :: string

text \<open>
  What one call leaves behind: the processor, the arguments of the calls of
  \<^verbatim>\<open>asyncio.sleep\<close> in order, and the returned dictionary.
\<close>

record outcome =
  processor_after :: processor
  sleeps :: "real list"
  returned :: pydict

definition process_payment ::
  "processor \<Rightarrow> world \<Rightarrow> string \<Rightarrow> string \<Rightarrow> real \<Rightarrow> outcome" where
  "process_payment s w customer_name customer_email amount =
     (let s' = check_and_update_slowdown s (clock w);
          slowdown_delay = get_slowdown_delay s' (delay_draw w);
          slept = (if slowdown_delay > 0 then [slowdown_delay] else []) @ [1 / 2]
      in if failure_draw w < failure_rate
         then \<lparr>processor_after = s', sleeps = slept,
               returned = [(''success'', PyBool False),
                           (''reason'', PyStr ''Insufficient funds''),
                           (''transaction_id'', PyNone)]\<rparr>
         else \<lparr>processor_after = s', sleeps = slept,
               returned = [(''success'', PyBool True),
                           (''transaction_id'', PyStr (uuid4 w)),
                           (''amount'', PyFloat amount)]\<rparr>)"

text \<open>\<^verbatim>\<open>dict.get(key)\<close> and \<^verbatim>\<open>dict.get(key, default)\<close>.\<close>

definition dict_get :: "pydict \<Rightarrow> string \<Rightarrow> pyval" where
  "dict_get d k = (case map_of d k of None \<Rightarrow> PyNone | Some v \<Rightarrow> v)"

definition dict_get_default :: "pydict \<Rightarrow> string \<Rightarrow> pyval \<Rightarrow> pyval" where
  "dict_get_default d k dflt = (case map_of d k of None \<Rightarrow> dflt | Some v \<Rightarrow> v)"

subsection \<open>The endpoint \<^verbatim>\<open>POST /api/payment\<close>\<close>

text \<open>The truth test of \<^verbatim>\<open>not result["success"]\<close>.\<close>

fun truthy :: "pyval \<Rightarrow> bool" where
  "truthy PyNone = False"
| "truthy (PyBool b) = b"
| "truthy (PyStr s) = (s \<noteq> [])"
| "truthy (PyFloat x) = (x \<noteq> 0)"

text \<open>
  What the handler takes from Python and from pydantic, whose code is outside the sources:
  the decimal text an f-string puts in for a float, the conversion that pydantic attempts
  when a float field is given a value that is no float (a numeric string converts, another
  string does not), and the text of a \<^verbatim>\<open>ValidationError\<close> for the two values
  that were passed.
\<close>

record library =
  float_str :: "real \<Rightarrow> string"
  lax_float :: "pyval \<Rightarrow> real option"
  validation_text :: "pyval \<Rightarrow> pyval \<Rightarrow> string"

text \<open>The text an f-string puts in for a value.\<close>

fun py_str :: "library \<Rightarrow> pyval \<Rightarrow> string" where
  "py_str lib PyNone = ''None''"
| "py_str lib (PyBool b) = (if b then ''True'' else ''False'')"
| "py_str lib (PyStr s) = s"
| "py_str lib (PyFloat x) = float_str lib x"

text \<open>
  What can be raised inside the \<^verbatim>\<open>try\<close> block: an \<^verbatim>\<open>HTTPException\<close> with
  its status code and detail, or another \<^verbatim>\<open>Exception\<close>, of which the handler
  only reads \<^verbatim>\<open>str(e)\<close>.
\<close>

datatype exn = HTTPException nat string | OtherException string

record PaymentRequest =
  customer_name :: string
  customer_email :: "string option"
  amount :: real

text \<open>
  The response model of \<^verbatim>\<open>models.py\<close>, with the declared types of its fields:
  \<^verbatim>\<open>bool\<close>, \<^verbatim>\<open>Optional[str]\<close>, \<^verbatim>\<open>Optional[str]\<close> and
  \<^verbatim>\<open>Optional[float]\<close>.
\<close>

record PaymentResponse =
  success :: bool
  transaction_id :: "string option"
  reason :: "string option"
  response_amount :: "real option"

text \<open>
  The validation of a field when the model is constructed; the outer \<open>None\<close> is a
  \<^verbatim>\<open>ValidationError\<close>. A field of type \<^verbatim>\<open>Optional[str]\<close> takes
  \<^verbatim>\<open>None\<close> or a string and nothing else (pydantic 2, which the import of
  \<^verbatim>\<open>pydantic_settings\<close> in \<^verbatim>\<open>config.py\<close> requires, converts neither a
  bool nor a float to a string). A field of type \<^verbatim>\<open>Optional[float]\<close> takes
  \<^verbatim>\<open>None\<close> or a float, and for a bool or a string whatever the library's
  conversion gives.
\<close>

fun optional_str :: "pyval \<Rightarrow> string option option" where
  "optional_str PyNone = Some None"
| "optional_str (PyStr s) = Some (Some s)"
| "optional_str (PyBool b) = None"
| "optional_str (PyFloat x) = None"

fun optional_float :: "library \<Rightarrow> pyval \<Rightarrow> real option option" where
  "optional_float lib PyNone = Some None"
| "optional_float lib (PyFloat x) = Some (Some x)"
| "optional_float lib (PyBool b) = map_option Some (lax_float lib (PyBool b))"
| "optional_float lib (PyStr s) = map_option Some (lax_float lib (PyStr s))"

text \<open>
  The call \<^verbatim>\<open>PaymentResponse(success=True, transaction_id=..., amount=...)\<close> of
  lines 125 to 129: the model, or the \<^verbatim>\<open>ValidationError\<close> that a field raises.
  \<^verbatim>\<open>reason\<close> is not passed and takes its default \<^verbatim>\<open>None\<close>.
\<close>

definition new_PaymentResponse :: "library \<Rightarrow> pyval \<Rightarrow> pyval \<Rightarrow> exn + PaymentResponse" where
  "new_PaymentResponse lib tid amt =
     (case optional_str tid of
        None \<Rightarrow> Inl (OtherException (validation_text lib tid amt))
      | Some t \<Rightarrow>
          (case optional_float lib amt of
             None \<Rightarrow> Inl (OtherException (validation_text lib tid amt))
           | Some a \<Rightarrow>
               Inr \<lparr>success = True, transaction_id = t, reason = None,
                    response_amount = a\<rparr>))"

text \<open>
  The body of the \<^verbatim>\<open>try\<close> block after the \<^verbatim>\<open>await\<close> (lines 114 to 129).
  \<open>awaited\<close> is what the call of the processor gave: a dictionary, or an exception.
  A dictionary without the key \<^verbatim>\<open>success\<close> raises \<^verbatim>\<open>KeyError\<close>, whose text
  is the key in single quotes.
\<close>

definition try_block :: "library \<Rightarrow> exn + pydict \<Rightarrow> exn + PaymentResponse" where
  "try_block lib awaited =
     (case awaited of
        Inl e \<Rightarrow> Inl e
      | Inr result \<Rightarrow>
          (case map_of result ''success'' of
             None \<Rightarrow> Inl (OtherException ([CHR 0x27] @ ''success'' @ [CHR 0x27]))
           | Some v \<Rightarrow>
               if \<not> truthy v
               then Inl (HTTPException 402
                      (''Payment failed: '' @
                       py_str lib
                         (dict_get_default result ''reason'' (PyStr ''Unknown error''))))
               else new_PaymentResponse lib
                      (dict_get result ''transaction_id'')
                      (dict_get result ''amount'')))"

text \<open>The two \<^verbatim>\<open>except\<close> clauses (lines 130 to 137).\<close>

fun except_clauses :: "exn \<Rightarrow> exn" where
  "except_clauses (HTTPException code detail) = HTTPException code detail"
| "except_clauses (OtherException msg) =
     HTTPException 500 (''Internal server error: '' @ msg)"

definition handle_awaited :: "library \<Rightarrow> exn + pydict \<Rightarrow> exn + PaymentResponse" where
  "handle_awaited lib awaited =
     (case try_block lib awaited of
        Inl e \<Rightarrow> Inl (except_clauses e)
      | Inr response \<Rightarrow> Inr response)"

text \<open>
  The handler \<^verbatim>\<open>process_payment\<close> of \<^verbatim>\<open>main.py\<close>, on the shared processor.
  \<^verbatim>\<open>payment_request.customer_email or ""\<close> replaces a missing address by the empty
  string.
\<close>

definition main_process_payment ::
  "library \<Rightarrow> processor \<Rightarrow> world \<Rightarrow> PaymentRequest
     \<Rightarrow> processor \<times> (exn + PaymentResponse)" where
  "main_process_payment lib s w payment_request =
     (let out = process_payment s w
                  (customer_name payment_request)
                  (case customer_email payment_request of None \<Rightarrow> [] | Some e \<Rightarrow> e)
                  (amount payment_request)
      in (processor_after out, handle_awaited lib (Inr (returned out))))"

text \<open>
  The status line the framework sends: 200 for a returned model, the exception's code
  for an \<^verbatim>\<open>HTTPException\<close>, and 500 for any other exception that escapes.
\<close>

fun status_code :: "exn + PaymentResponse \<Rightarrow> nat" where
  "status_code (Inr response) = 200"
| "status_code (Inl (HTTPException code detail)) = code"
| "status_code (Inl (OtherException msg)) = 500"

subsection \<open>Invariants of the processor\<close>

text \<open>A slow period is under way exactly when its start time is recorded.\<close>

definition start_time_inv :: "processor \<Rightarrow> bool" where
  "start_time_inv s = (slowdown_active s \<longleftrightarrow> slowdown_start_time s \<noteq> None)"

text \<open>
  What holds of every processor that was constructed and checked at clock readings after
  the epoch: a timestamp that is set is positive, and a disabled processor is not in a
  slow period.
\<close>

definition after_epoch :: "processor \<Rightarrow> bool" where
  "after_epoch s =
     ((slowdown_active s \<longrightarrow> slowdown_enabled s)
      \<and> (case next_slowdown_time s of None \<Rightarrow> True | Some t \<Rightarrow> 0 < t)
      \<and> (case slowdown_start_time s of None \<Rightarrow> True | Some t \<Rightarrow> 0 < t))"

section \<open>Basic facts\<close>

lemma init_after_epoch: "0 < t0 \<Longrightarrow> after_epoch (PaymentProcessor_init enabled t0)"
  by (simp add: after_epoch_def PaymentProcessor_init_def)

lemma check_after_epoch:
  "after_epoch s \<Longrightarrow> 0 < now \<Longrightarrow> after_epoch (check_and_update_slowdown s now)"
  by (auto simp: after_epoch_def check_and_update_slowdown_def Let_def
      slowdown_interval_def split: option.splits)

lemma run_checks_after_epoch:
  "after_epoch s \<Longrightarrow> \<forall>n \<in> set nows. 0 < n \<Longrightarrow> after_epoch (run_checks s nows)"
  unfolding run_checks_def
  by (induction nows arbitrary: s) (simp_all add: check_after_epoch)

lemma check_disabled: "\<not> slowdown_enabled s \<Longrightarrow> check_and_update_slowdown s now = s"
  by (simp add: check_and_update_slowdown_def)

lemma run_checks_disabled: "\<not> slowdown_enabled s \<Longrightarrow> run_checks s nows = s"
  unfolding run_checks_def by (induction nows) (simp_all add: check_disabled)

lemma check_preserves_inv:
  "start_time_inv s \<Longrightarrow> start_time_inv (check_and_update_slowdown s now)"
  by (auto simp: start_time_inv_def check_and_update_slowdown_def Let_def)

lemma run_checks_preserves_inv:
  "start_time_inv s \<Longrightarrow> start_time_inv (run_checks s nows)"
  unfolding run_checks_def
  by (induction nows arbitrary: s) (simp_all add: check_preserves_inv)

lemma init_inv: "start_time_inv (PaymentProcessor_init enabled t0)"
  by (simp add: start_time_inv_def PaymentProcessor_init_def)

lemma returned_process_payment:
  "returned (process_payment s w n e a) =
     (if failure_draw w < failure_rate
      then [(''success'', PyBool False), (''reason'', PyStr ''Insufficient funds''),
            (''transaction_id'', PyNone)]
      else [(''success'', PyBool True), (''transaction_id'', PyStr (uuid4 w)),
            (''amount'', PyFloat a)])"
  by (simp add: process_payment_def Let_def)

lemma processor_after_process_payment:
  "processor_after (process_payment s w n e a) = check_and_update_slowdown s (clock w)"
  by (simp add: process_payment_def Let_def)

lemma sleeps_process_payment:
  "sleeps (process_payment s w n e a) =
     (if get_slowdown_delay (check_and_update_slowdown s (clock w)) (delay_draw w) > 0
      then [get_slowdown_delay (check_and_update_slowdown s (clock w)) (delay_draw w), 1 / 2]
      else [1 / 2])"
  by (simp add: process_payment_def Let_def)

lemma uniform_bounds:
  assumes "0 \<le> u" "u < 1" "a \<le> b"
  shows "a \<le> uniform a b u \<and> uniform a b u \<le> b"
proof -
  have "0 \<le> (b - a) * u" using assms by simp
  moreover have "(b - a) * u \<le> (b - a) * 1"
    using assms by (intro mult_left_mono) simp_all
  ultimately show ?thesis by (simp add: uniform_def)
qed

section \<open>The result of a payment\<close>

text \<open>
  Claim C1. For every call of \<^verbatim>\<open>process_payment\<close>, whatever the processor, the
  customer and the amount: if the failure draw is below 0.05, the returned dictionary has
  \<^verbatim>\<open>success\<close> false, the reason "Insufficient funds" and \<^verbatim>\<open>None\<close> as
  transaction identifier; otherwise it has \<^verbatim>\<open>success\<close> true, the identifier that
  \<^verbatim>\<open>uuid4\<close> generated in this call, the amount that was passed in, and no reason.
  No result carries both an identifier and a reason.
\<close>

theorem process_payment_result:
  "(failure_draw w < 5 / 100 \<longrightarrow>
      dict_get (returned (process_payment s w n e a)) ''success'' = PyBool False
      \<and> dict_get (returned (process_payment s w n e a)) ''reason''
          = PyStr ''Insufficient funds''
      \<and> dict_get (returned (process_payment s w n e a)) ''transaction_id'' = PyNone)
   \<and> (\<not> failure_draw w < 5 / 100 \<longrightarrow>
      dict_get (returned (process_payment s w n e a)) ''success'' = PyBool True
      \<and> dict_get (returned (process_payment s w n e a)) ''transaction_id''
          = PyStr (uuid4 w)
      \<and> dict_get (returned (process_payment s w n e a)) ''amount'' = PyFloat a
      \<and> dict_get (returned (process_payment s w n e a)) ''reason'' = PyNone)
   \<and> \<not> (dict_get (returned (process_payment s w n e a)) ''transaction_id'' \<noteq> PyNone
        \<and> dict_get (returned (process_payment s w n e a)) ''reason'' \<noteq> PyNone)"
  by (simp add: returned_process_payment dict_get_def failure_rate_def)

text \<open>A declined and an accepted payment of 4.50 by Ada Lovelace.\<close>

theorem process_payment_result_witness:
  "dict_get (returned (process_payment (PaymentProcessor_init False 0)
      \<lparr>clock = 10, delay_draw = 1 / 2, failure_draw = 1 / 100, uuid4 = ''u1''\<rparr>
      ''Ada Lovelace'' '''' (9 / 2))) ''reason'' = PyStr ''Insufficient funds''
   \<and> dict_get (returned (process_payment (PaymentProcessor_init False 0)
      \<lparr>clock = 10, delay_draw = 1 / 2, failure_draw = 1 / 100, uuid4 = ''u1''\<rparr>
      ''Ada Lovelace'' '''' (9 / 2))) ''transaction_id'' = PyNone
   \<and> dict_get (returned (process_payment (PaymentProcessor_init False 0)
      \<lparr>clock = 10, delay_draw = 1 / 2, failure_draw = 1 / 2, uuid4 = ''u1''\<rparr>
      ''Ada Lovelace'' '''' (9 / 2))) ''transaction_id'' = PyStr ''u1''
   \<and> dict_get (returned (process_payment (PaymentProcessor_init False 0)
      \<lparr>clock = 10, delay_draw = 1 / 2, failure_draw = 1 / 2, uuid4 = ''u1''\<rparr>
      ''Ada Lovelace'' '''' (9 / 2))) ''amount'' = PyFloat (9 / 2)"
  using process_payment_result
          [of "\<lparr>clock = 10, delay_draw = 1 / 2, failure_draw = 1 / 100, uuid4 = ''u1''\<rparr>"
              "PaymentProcessor_init False 0" "''Ada Lovelace''" "''''" "9 / 2"]
        process_payment_result
          [of "\<lparr>clock = 10, delay_draw = 1 / 2, failure_draw = 1 / 2, uuid4 = ''u1''\<rparr>"
              "PaymentProcessor_init False 0" "''Ada Lovelace''" "''''" "9 / 2"]
  by simp

section \<open>The transitions of the state check\<close>

text \<open>
  Claim C2. The truth tests of lines 45 and 54 take a timestamp for set when it is neither
  \<^verbatim>\<open>None\<close> nor the float 0.0, so the claim is stated for the processors of clock
  readings after the epoch, which are all that construction and checks produce. On them
  the state check, as a function of the processor and the clock reading, performs exactly
  the transitions of the claim: when enabled, not active and the clock has reached the next
  slowdown time, it sets active and records the clock reading as start time; when active
  and at least 300 seconds have passed since the start time, it clears active and the start
  time and sets the next slowdown time to the clock reading plus 900 seconds; in every
  other case, a disabled feature among them, it leaves the processor as it was.
\<close>

theorem check_transitions:
  assumes "after_epoch s"
  shows "(slowdown_enabled s \<and> \<not> slowdown_active s
            \<and> next_slowdown_time s = Some t \<and> now \<ge> t
          \<longrightarrow> check_and_update_slowdown s now
                = s\<lparr>slowdown_active := True, slowdown_start_time := Some now\<rparr>)
       \<and> (slowdown_active s \<and> slowdown_start_time s = Some st \<and> now - st \<ge> 300
          \<longrightarrow> check_and_update_slowdown s now
                = s\<lparr>slowdown_active := False, slowdown_start_time := None,
                    next_slowdown_time := Some (now + 900)\<rparr>)
       \<and> (\<not> (slowdown_enabled s \<and> \<not> slowdown_active s
               \<and> (\<exists>t'. next_slowdown_time s = Some t' \<and> now \<ge> t'))
          \<and> \<not> (slowdown_active s
               \<and> (\<exists>st'. slowdown_start_time s = Some st' \<and> now - st' \<ge> 300))
          \<longrightarrow> check_and_update_slowdown s now = s)"
  using assms
  by (cases "next_slowdown_time s"; cases "slowdown_start_time s")
     (auto simp: after_epoch_def check_and_update_slowdown_def Let_def
        slowdown_duration_def slowdown_interval_def)

text \<open>
  A processor constructed at 100 with the feature enabled starts its slow period at the
  check of 130; the period is still on at 429 and ends at 430, with the next one due at
  1330.
\<close>

theorem check_transitions_witness:
  "after_epoch (PaymentProcessor_init True 100)
   \<and> after_epoch
       \<lparr>slowdown_enabled = True, slowdown_active = True,
      slowdown_start_time = Some 130, next_slowdown_time = Some 100\<rparr>
   \<and> check_and_update_slowdown (PaymentProcessor_init True 100) 130
     = \<lparr>slowdown_enabled = True, slowdown_active = True,
      slowdown_start_time = Some 130, next_slowdown_time = Some 100\<rparr>
   \<and> check_and_update_slowdown
       \<lparr>slowdown_enabled = True, slowdown_active = True,
      slowdown_start_time = Some 130, next_slowdown_time = Some 100\<rparr> 430
     = \<lparr>slowdown_enabled = True, slowdown_active = False,
      slowdown_start_time = None, next_slowdown_time = Some 1330\<rparr>
   \<and> check_and_update_slowdown
       \<lparr>slowdown_enabled = True, slowdown_active = True,
      slowdown_start_time = Some 130, next_slowdown_time = Some 100\<rparr> 429
     = \<lparr>slowdown_enabled = True, slowdown_active = True,
      slowdown_start_time = Some 130, next_slowdown_time = Some 100\<rparr>"
proof -
  have h0: "after_epoch (PaymentProcessor_init True 100)"
    by (simp add: after_epoch_def PaymentProcessor_init_def)
  have h1: "after_epoch
       \<lparr>slowdown_enabled = True, slowdown_active = True,
      slowdown_start_time = Some 130, next_slowdown_time = Some 100\<rparr>"
    by (simp add: after_epoch_def)
  show ?thesis
    using h0 h1
      check_transitions [OF h0, of 100 130 0]
      check_transitions [OF h1, of 100 430 130]
      check_transitions [OF h1, of 100 429 130]
    by (simp add: PaymentProcessor_init_def)
qed

section \<open>The delay of a request\<close>

text \<open>
  Claim C3. For every processor as the state check leaves it, and every draw of
  \<^verbatim>\<open>random()\<close>, which lies in \<open>[0, 1)\<close>: the slowdown delay computed for the
  request lies in the closed interval from 2 to 5 seconds when enabled and active are both
  true, and is exactly 0 otherwise. Computing the delay changes no state: the processor
  after the whole request is the one the state check returned.
\<close>

theorem slowdown_delay_range:
  assumes "0 \<le> delay_draw w" and "delay_draw w < 1"
  shows "(slowdown_enabled (check_and_update_slowdown s (clock w))
          \<and> slowdown_active (check_and_update_slowdown s (clock w)) \<longrightarrow>
            2 \<le> get_slowdown_delay (check_and_update_slowdown s (clock w)) (delay_draw w)
            \<and> get_slowdown_delay (check_and_update_slowdown s (clock w)) (delay_draw w) \<le> 5)
       \<and> (\<not> (slowdown_enabled (check_and_update_slowdown s (clock w))
              \<and> slowdown_active (check_and_update_slowdown s (clock w))) \<longrightarrow>
            get_slowdown_delay (check_and_update_slowdown s (clock w)) (delay_draw w) = 0)
       \<and> processor_after (process_payment s w n e a)
           = check_and_update_slowdown s (clock w)"
proof -
  have "2 \<le> uniform slowdown_min_delay slowdown_max_delay (delay_draw w)
        \<and> uniform slowdown_min_delay slowdown_max_delay (delay_draw w) \<le> 5"
    using uniform_bounds [OF assms, of slowdown_min_delay slowdown_max_delay]
    by (simp add: slowdown_min_delay_def slowdown_max_delay_def)
  then show ?thesis
    by (simp add: get_slowdown_delay_def processor_after_process_payment)
qed

text \<open>
  A request at 130 that starts the slow period due at 100 is delayed within the range; a
  request on a disabled processor is not delayed.
\<close>

theorem slowdown_delay_range_witness:
  "(0::real) \<le> 1 / 2 \<and> (1 / 2 :: real) < 1
   \<and> slowdown_active (check_and_update_slowdown
       \<lparr>slowdown_enabled = True, slowdown_active = False,
      slowdown_start_time = None, next_slowdown_time = Some 100\<rparr> 130)
   \<and> 2 \<le> get_slowdown_delay (check_and_update_slowdown
       \<lparr>slowdown_enabled = True, slowdown_active = False,
      slowdown_start_time = None, next_slowdown_time = Some 100\<rparr> 130) (1 / 2)
   \<and> get_slowdown_delay (check_and_update_slowdown
       \<lparr>slowdown_enabled = True, slowdown_active = False,
      slowdown_start_time = None, next_slowdown_time = Some 100\<rparr> 130) (1 / 2) \<le> 5
   \<and> get_slowdown_delay (check_and_update_slowdown
       (PaymentProcessor_init False 100) 130) (1 / 2) = 0"
  using slowdown_delay_range
          [of "\<lparr>clock = 130, delay_draw = 1 / 2, failure_draw = 1 / 2, uuid4 = ''u1''\<rparr>"
              "\<lparr>slowdown_enabled = True, slowdown_active = False,
      slowdown_start_time = None, next_slowdown_time = Some 100\<rparr>"]
        slowdown_delay_range
          [of "\<lparr>clock = 130, delay_draw = 1 / 2, failure_draw = 1 / 2, uuid4 = ''u1''\<rparr>"
              "PaymentProcessor_init False 100"]
  by (simp add: check_and_update_slowdown_def PaymentProcessor_init_def)

section \<open>A disabled feature\<close>

text \<open>
  Claim C4. If the slowdown feature is disabled, then after every sequence of state checks
  at arbitrary times the processor is unchanged in every field, the slowdown delay of every
  call is 0, and a request sleeps for the base delay of 0.5 seconds only. A processor
  constructed with the feature disabled is therefore never active.
\<close>

theorem disabled_never_slows:
  assumes "\<not> slowdown_enabled s"
  shows "run_checks s nows = s
       \<and> get_slowdown_delay (run_checks s nows) u = 0
       \<and> processor_after (process_payment (run_checks s nows) w n e a) = s
       \<and> sleeps (process_payment (run_checks s nows) w n e a) = [1 / 2]
       \<and> \<not> slowdown_active (run_checks (PaymentProcessor_init False t0) nows)"
proof -
  have init: "\<not> slowdown_enabled (PaymentProcessor_init False t0)"
    by (simp add: PaymentProcessor_init_def)
  have "\<not> slowdown_active (run_checks (PaymentProcessor_init False t0) nows)"
    by (simp add: run_checks_disabled [OF init]) (simp add: PaymentProcessor_init_def)
  then show ?thesis
    using assms
    by (simp add: run_checks_disabled check_disabled get_slowdown_delay_def
        processor_after_process_payment sleeps_process_payment)
qed

text \<open>Three checks spread over more than an hour, then a request.\<close>

theorem disabled_never_slows_witness:
  "\<not> slowdown_enabled (PaymentProcessor_init False 100)
   \<and> run_checks (PaymentProcessor_init False 100) [130, 1030, 4000]
       = PaymentProcessor_init False 100
   \<and> get_slowdown_delay
       (run_checks (PaymentProcessor_init False 100) [130, 1030, 4000]) (1 / 2) = 0
   \<and> sleeps (process_payment
       (run_checks (PaymentProcessor_init False 100) [130, 1030, 4000])
       \<lparr>clock = 130, delay_draw = 1 / 2, failure_draw = 1 / 2, uuid4 = ''u1''\<rparr>
       ''Ada Lovelace'' '''' (9 / 2)) = [1 / 2]"
proof -
  have h: "\<not> slowdown_enabled (PaymentProcessor_init False 100)"
    by (simp add: PaymentProcessor_init_def)
  show ?thesis
    using h disabled_never_slows [OF h, of "[130, 1030, 4000]" "1 / 2"
        "\<lparr>clock = 130, delay_draw = 1 / 2, failure_draw = 1 / 2, uuid4 = ''u1''\<rparr>"
        "''Ada Lovelace''" "''''" "9 / 2" 100]
    by blast
qed

section \<open>The start time is set exactly while a slow period is active\<close>

text \<open>
  Claim C5. The invariant "active is true if and only if the start time of the slow period
  is set" holds in the state the constructor builds, is preserved by the state check at any
  clock reading, and so holds after every sequence of checks from construction: an inactive
  processor never carries a start time.
\<close>

theorem start_time_invariant:
  "start_time_inv (PaymentProcessor_init enabled t0)
   \<and> (start_time_inv s \<longrightarrow> start_time_inv (check_and_update_slowdown s now))
   \<and> start_time_inv (run_checks (PaymentProcessor_init enabled t0) nows)"
  by (simp add: init_inv check_preserves_inv run_checks_preserves_inv)

text \<open>Across the start of a slow period at 130 and its end at 430.\<close>

theorem start_time_invariant_witness:
  "start_time_inv (PaymentProcessor_init True 100)
   \<and> start_time_inv (check_and_update_slowdown (PaymentProcessor_init True 100) 130)
   \<and> start_time_inv (run_checks (PaymentProcessor_init True 100) [130, 430, 1400])"
  using start_time_invariant [of True 100 "PaymentProcessor_init True 100" 130
      "[130, 430, 1400]"]
  by simp

section \<open>The endpoint\<close>

text \<open>
  Claim C6. \<^verbatim>\<open>POST /api/payment\<close> answers with status 402 and the detail
  "Payment failed: " followed by the reason if and only if the processor's result has
  \<^verbatim>\<open>success\<close> false, and with status 200 and a response of \<^verbatim>\<open>success\<close>
  true, the transaction identifier as a string and the amount as a number if and only if
  the result has \<^verbatim>\<open>success\<close> true. Any other exception inside the handler
  becomes status 500: one that the processor raises, a result without the key
  \<^verbatim>\<open>success\<close>, a successful result whose identifier or amount the response model
  rejects. For any dictionary with a boolean \<^verbatim>\<open>success\<close> the status is 402
  exactly when it is false, so a declined payment never looks like a fault.
\<close>

theorem endpoint_status:
  "(failure_draw w < failure_rate \<longrightarrow>
      snd (main_process_payment lib s w req)
        = Inl (HTTPException 402 ''Payment failed: Insufficient funds''))
   \<and> (\<not> failure_draw w < failure_rate \<longrightarrow>
      snd (main_process_payment lib s w req)
        = Inr \<lparr>success = True, transaction_id = Some (uuid4 w), reason = None,
               response_amount = Some (amount req)\<rparr>)
   \<and> (status_code (snd (main_process_payment lib s w req)) = 402 \<longleftrightarrow>
        dict_get (returned (process_payment s w (customer_name req)
           (case customer_email req of None \<Rightarrow> [] | Some e \<Rightarrow> e) (amount req))) ''success''
          = PyBool False)
   \<and> (status_code (snd (main_process_payment lib s w req)) = 200 \<longleftrightarrow>
        dict_get (returned (process_payment s w (customer_name req)
           (case customer_email req of None \<Rightarrow> [] | Some e \<Rightarrow> e) (amount req))) ''success''
          = PyBool True)
   \<and> handle_awaited lib (Inl (OtherException msg))
        = Inl (HTTPException 500 (''Internal server error: '' @ msg))
   \<and> (map_of d ''success'' = None \<longrightarrow> status_code (handle_awaited lib (Inr d)) = 500)
   \<and> (map_of d ''success'' = Some (PyBool b) \<longrightarrow>
        (status_code (handle_awaited lib (Inr d)) = 402 \<longleftrightarrow> \<not> b)
        \<and> (status_code (handle_awaited lib (Inr d)) = 200 \<longleftrightarrow>
             b \<and> optional_str (dict_get d ''transaction_id'') \<noteq> None
               \<and> optional_float lib (dict_get d ''amount'') \<noteq> None)
        \<and> (status_code (handle_awaited lib (Inr d)) = 500 \<longleftrightarrow>
             b \<and> (optional_str (dict_get d ''transaction_id'') = None
                  \<or> optional_float lib (dict_get d ''amount'') = None)))
   \<and> (map_of d ''success'' = Some (PyBool False) \<and> map_of d ''reason'' = Some (PyStr rs) \<longrightarrow>
        handle_awaited lib (Inr d) = Inl (HTTPException 402 (''Payment failed: '' @ rs)))
   \<and> (map_of d ''success'' = Some (PyBool True)
        \<and> map_of d ''transaction_id'' = Some (PyStr tid)
        \<and> map_of d ''amount'' = Some (PyFloat x) \<longrightarrow>
        handle_awaited lib (Inr d)
          = Inr \<lparr>success = True, transaction_id = Some tid, reason = None,
                 response_amount = Some x\<rparr>)"
  by (auto simp: main_process_payment_def handle_awaited_def try_block_def
      new_PaymentResponse_def returned_process_payment dict_get_def dict_get_default_def
      split: option.splits)

text \<open>
  The two scenarios of a payment of 4.50 by Ada Lovelace, and three dictionaries handed to
  the handler directly: one without the key \<^verbatim>\<open>success\<close>, a decline with another
  reason, and a success whose transaction identifier is a bool.
\<close>

theorem endpoint_status_witness:
  "snd (main_process_payment \<lparr>float_str = (\<lambda>x. ''4.5''),
        lax_float = (\<lambda>v. if v = PyStr ''4.5'' then Some (9 / 2) else None),
        validation_text = (\<lambda>t a. ''validation error'')\<rparr>
      (PaymentProcessor_init False 0)
      \<lparr>clock = 10, delay_draw = 1 / 2, failure_draw = 1 / 100, uuid4 = ''u1''\<rparr>
      \<lparr>customer_name = ''Ada Lovelace'', customer_email = None, amount = 9 / 2\<rparr>)
     = Inl (HTTPException 402 ''Payment failed: Insufficient funds'')
   \<and> snd (main_process_payment \<lparr>float_str = (\<lambda>x. ''4.5''),
        lax_float = (\<lambda>v. if v = PyStr ''4.5'' then Some (9 / 2) else None),
        validation_text = (\<lambda>t a. ''validation error'')\<rparr>
      (PaymentProcessor_init False 0)
      \<lparr>clock = 10, delay_draw = 1 / 2, failure_draw = 1 / 2, uuid4 = ''u1''\<rparr>
      \<lparr>customer_name = ''Ada Lovelace'', customer_email = None, amount = 9 / 2\<rparr>)
     = Inr \<lparr>success = True, transaction_id = Some ''u1'', reason = None,
            response_amount = Some (9 / 2)\<rparr>
   \<and> status_code (handle_awaited \<lparr>float_str = (\<lambda>x. ''4.5''),
        lax_float = (\<lambda>v. if v = PyStr ''4.5'' then Some (9 / 2) else None),
        validation_text = (\<lambda>t a. ''validation error'')\<rparr>
        (Inr [(''amount'', PyFloat 1)])) = 500
   \<and> handle_awaited \<lparr>float_str = (\<lambda>x. ''4.5''),
        lax_float = (\<lambda>v. if v = PyStr ''4.5'' then Some (9 / 2) else None),
        validation_text = (\<lambda>t a. ''validation error'')\<rparr>
        (Inr [(''success'', PyBool False), (''reason'', PyStr ''Card expired'')])
     = Inl (HTTPException 402 ''Payment failed: Card expired'')
   \<and> status_code (handle_awaited \<lparr>float_str = (\<lambda>x. ''4.5''),
        lax_float = (\<lambda>v. if v = PyStr ''4.5'' then Some (9 / 2) else None),
        validation_text = (\<lambda>t a. ''validation error'')\<rparr>
        (Inr [(''success'', PyBool True), (''reason'', PyStr ''x''),
              (''transaction_id'', PyBool True)])) = 500"
  using endpoint_status
          [of "\<lparr>clock = 10, delay_draw = 1 / 2, failure_draw = 1 / 100, uuid4 = ''u1''\<rparr>"
              "\<lparr>float_str = (\<lambda>x. ''4.5''),
        lax_float = (\<lambda>v. if v = PyStr ''4.5'' then Some (9 / 2) else None),
        validation_text = (\<lambda>t a. ''validation error'')\<rparr>"
              "PaymentProcessor_init False 0"
              "\<lparr>customer_name = ''Ada Lovelace'', customer_email = None, amount = 9 / 2\<rparr>"
              "[]" "[(''amount'', PyFloat 1)]" True "[]" "[]" 0]
        endpoint_status
          [of "\<lparr>clock = 10, delay_draw = 1 / 2, failure_draw = 1 / 2, uuid4 = ''u1''\<rparr>"
              "\<lparr>float_str = (\<lambda>x. ''4.5''),
        lax_float = (\<lambda>v. if v = PyStr ''4.5'' then Some (9 / 2) else None),
        validation_text = (\<lambda>t a. ''validation error'')\<rparr>"
              "PaymentProcessor_init False 0"
              "\<lparr>customer_name = ''Ada Lovelace'', customer_email = None, amount = 9 / 2\<rparr>"
              "[]" "[(''success'', PyBool False), (''reason'', PyStr ''Card expired'')]"
              False "''Card expired''" "[]" 0]
        endpoint_status
          [of "\<lparr>clock = 10, delay_draw = 1 / 2, failure_draw = 1 / 2, uuid4 = ''u1''\<rparr>"
              "\<lparr>float_str = (\<lambda>x. ''4.5''),
        lax_float = (\<lambda>v. if v = PyStr ''4.5'' then Some (9 / 2) else None),
        validation_text = (\<lambda>t a. ''validation error'')\<rparr>"
              "PaymentProcessor_init False 0"
              "\<lparr>customer_name = ''Ada Lovelace'', customer_email = None, amount = 9 / 2\<rparr>"
              "[]" "[(''success'', PyBool True), (''reason'', PyStr ''x''),
                     (''transaction_id'', PyBool True)]"
              True "''x''" "[]" 0]
  by (simp add: failure_rate_def dict_get_def)

section \<open>The result does not depend on the slowdown\<close>

text \<open>
  Claim C7. Two calls of \<^verbatim>\<open>process_payment\<close> with the same failure draw, on
  arbitrary processors, clock readings and delay draws, return the same success flag, the
  same reason and the same amount, and the same dictionary when the generated identifier is
  the same too. A call fails exactly when its failure draw is below the failure rate,
  whatever the slowdown state: the slowdown only adds to the sleeps.
\<close>

theorem result_independent_of_slowdown:
  assumes "failure_draw w1 = failure_draw w2"
  shows "dict_get (returned (process_payment s1 w1 n1 e1 a)) ''success''
           = dict_get (returned (process_payment s2 w2 n2 e2 a)) ''success''
       \<and> dict_get (returned (process_payment s1 w1 n1 e1 a)) ''reason''
           = dict_get (returned (process_payment s2 w2 n2 e2 a)) ''reason''
       \<and> dict_get (returned (process_payment s1 w1 n1 e1 a)) ''amount''
           = dict_get (returned (process_payment s2 w2 n2 e2 a)) ''amount''
       \<and> (uuid4 w1 = uuid4 w2 \<longrightarrow>
            returned (process_payment s1 w1 n1 e1 a) = returned (process_payment s2 w2 n2 e2 a))
       \<and> (dict_get (returned (process_payment s1 w1 n1 e1 a)) ''success'' = PyBool False
            \<longleftrightarrow> failure_draw w1 < failure_rate)"
  using assms by (simp add: returned_process_payment dict_get_def)

text \<open>The same payment on a disabled processor and in the middle of a slow period.\<close>

theorem result_independent_of_slowdown_witness:
  "failure_draw \<lparr>clock = 10, delay_draw = 1 / 2, failure_draw = 1 / 2, uuid4 = ''u1''\<rparr>
     = failure_draw \<lparr>clock = 130, delay_draw = 1 / 2, failure_draw = 1 / 2, uuid4 = ''u1''\<rparr>
   \<and> returned (process_payment (PaymentProcessor_init False 0)
        \<lparr>clock = 10, delay_draw = 1 / 2, failure_draw = 1 / 2, uuid4 = ''u1''\<rparr>
        ''Ada Lovelace'' '''' (9 / 2))
     = returned (process_payment
        \<lparr>slowdown_enabled = True, slowdown_active = True,
      slowdown_start_time = Some 130, next_slowdown_time = Some 100\<rparr>
        \<lparr>clock = 130, delay_draw = 1 / 2, failure_draw = 1 / 2, uuid4 = ''u1''\<rparr>
        ''Ada Lovelace'' '''' (9 / 2))"
  using result_independent_of_slowdown
          [of "\<lparr>clock = 10, delay_draw = 1 / 2, failure_draw = 1 / 2, uuid4 = ''u1''\<rparr>"
              "\<lparr>clock = 130, delay_draw = 1 / 2, failure_draw = 1 / 2, uuid4 = ''u1''\<rparr>"
              "PaymentProcessor_init False 0" "''Ada Lovelace''" "''''" "9 / 2"
              "\<lparr>slowdown_enabled = True, slowdown_active = True,
      slowdown_start_time = Some 130, next_slowdown_time = Some 100\<rparr>"
              "''Ada Lovelace''" "''''"]
  by simp

section \<open>The first slow period\<close>

text \<open>
  Claim C9. Right after construction with the feature enabled, the next slowdown time
  equals the construction time. So for a construction at a clock reading after the epoch,
  the first state check, at any time at or after construction, performs the transition
  from normal to slow: the first slow period begins on first access, not after the
  interval of 900 seconds.
\<close>

theorem first_check_starts_slowdown:
  assumes "0 < t0" and "t0 \<le> now"
  shows "next_slowdown_time (PaymentProcessor_init True t0) = Some t0
       \<and> check_and_update_slowdown (PaymentProcessor_init True t0) now
         = (PaymentProcessor_init True t0)
             \<lparr>slowdown_active := True, slowdown_start_time := Some now\<rparr>"
  using assms by (simp add: check_and_update_slowdown_def PaymentProcessor_init_def)

text \<open>Construction at 100 and a first check at the same clock reading.\<close>

theorem first_check_starts_slowdown_witness:
  "(0::real) < 100 \<and> (100::real) \<le> 100
   \<and> next_slowdown_time (PaymentProcessor_init True 100) = Some 100
   \<and> check_and_update_slowdown (PaymentProcessor_init True 100) 100
     = \<lparr>slowdown_enabled = True, slowdown_active = True,
        slowdown_start_time = Some 100, next_slowdown_time = Some 100\<rparr>"
proof -
  have h1: "(0::real) < 100" and h2: "(100::real) \<le> 100" by simp_all
  show ?thesis
    using first_check_starts_slowdown [OF h1 h2]
    by (simp add: PaymentProcessor_init_def)
qed

section \<open>The next slowdown time during a slow period\<close>

text \<open>
  Claim C10. A check that starts a slow period leaves the next slowdown time as it was,
  a value that the clock has already reached. While the period stays active a check changes
  nothing, so the stale value stays and starts no second period. A check changes the next
  slowdown time only when it ends a slow period, and then sets it to the clock reading
  plus 900 seconds.
\<close>

theorem next_time_stale_while_active:
  "(\<not> slowdown_active s \<and> slowdown_active (check_and_update_slowdown s now) \<longrightarrow>
      next_slowdown_time (check_and_update_slowdown s now) = next_slowdown_time s
      \<and> slowdown_start_time (check_and_update_slowdown s now) = Some now
      \<and> (\<exists>t. next_slowdown_time s = Some t \<and> t \<le> now))
   \<and> (slowdown_active s \<and> slowdown_active (check_and_update_slowdown s now) \<longrightarrow>
      check_and_update_slowdown s now = s)
   \<and> (next_slowdown_time (check_and_update_slowdown s now) \<noteq> next_slowdown_time s \<longrightarrow>
      slowdown_active s \<and> \<not> slowdown_active (check_and_update_slowdown s now)
      \<and> slowdown_start_time (check_and_update_slowdown s now) = None
      \<and> next_slowdown_time (check_and_update_slowdown s now) = Some (now + 900))"
  by (cases "next_slowdown_time s")
     (auto simp: check_and_update_slowdown_def Let_def slowdown_interval_def
        split: if_splits)

text \<open>
  The period due at 100 starts at 130 with the next slowdown time still 100, a check at
  200 changes nothing, and the check at 430 moves the next slowdown time to 1330.
\<close>

theorem next_time_stale_while_active_witness:
  "next_slowdown_time (check_and_update_slowdown
      \<lparr>slowdown_enabled = True, slowdown_active = False,
      slowdown_start_time = None, next_slowdown_time = Some 100\<rparr> 130) = Some 100
   \<and> check_and_update_slowdown
      \<lparr>slowdown_enabled = True, slowdown_active = True,
      slowdown_start_time = Some 130, next_slowdown_time = Some 100\<rparr> 200
     = \<lparr>slowdown_enabled = True, slowdown_active = True,
      slowdown_start_time = Some 130, next_slowdown_time = Some 100\<rparr>
   \<and> next_slowdown_time (check_and_update_slowdown
      \<lparr>slowdown_enabled = True, slowdown_active = True,
      slowdown_start_time = Some 130, next_slowdown_time = Some 100\<rparr> 430) = Some 1330"
  using next_time_stale_while_active [of "\<lparr>slowdown_enabled = True, slowdown_active = False,
      slowdown_start_time = None, next_slowdown_time = Some 100\<rparr>" 130]
    next_time_stale_while_active [of "\<lparr>slowdown_enabled = True, slowdown_active = True,
      slowdown_start_time = Some 130, next_slowdown_time = Some 100\<rparr>" 200]
    next_time_stale_while_active [of "\<lparr>slowdown_enabled = True, slowdown_active = True,
      slowdown_start_time = Some 130, next_slowdown_time = Some 100\<rparr>" 430]
  by (simp add: check_and_update_slowdown_def slowdown_duration_def slowdown_interval_def)

end
